theory Spec2Isabelle
  imports Main "HOL-Library.Sublist"
begin

unbundle bit_operations_syntax

section \<open>Gauge watchers (faucet/watcher.py)\<close>

subsection \<open>Errors and Python built-ins\<close>

text \<open>
  The exceptions the module can raise or let through. \<open>InvalidConfigError\<close> carries its
  message argument.
\<close>

datatype py_error =
    KeyError
  | IndexError
  | TypeError
  | OSError
  | InvalidConfigError string

text \<open>Python's \<^verbatim>\<open>str(n)\<close> on an integer, which is what \<^verbatim>\<open>'%s' % n\<close> renders.\<close>

definition digit_char :: "nat \<Rightarrow> char" where
  "digit_char d = ''0123456789'' ! d"

fun str_nat :: "nat \<Rightarrow> string" where
  "str_nat n = (if n < 10 then [digit_char n] else str_nat (n div 10) @ [digit_char (n mod 10)])"

declare str_nat.simps [simp del]

definition str_int :: "int \<Rightarrow> string" where
  "str_int i = (if i < 0 then CHR ''-'' # str_nat (nat (- i)) else str_nat (nat i))"

text \<open>Python's \<^verbatim>\<open>sep.join(parts)\<close>.\<close>

fun join :: "string \<Rightarrow> string list \<Rightarrow> string" where
  "join sep [] = []"
| "join sep [x] = x"
| "join sep (x # y # ys) = x @ sep @ join sep (y # ys)"

text \<open>Truthiness of an optional string: \<^verbatim>\<open>None\<close> and \<^verbatim>\<open>''\<close> are false.\<close>

fun truthy :: "string option \<Rightarrow> bool" where
  "truthy None = False"
| "truthy (Some s) = (s \<noteq> [])"

subsection \<open>Configuration and the watcher factory\<close>

text \<open>
  The attributes of \<^verbatim>\<open>GaugeConf\<close> the module reads: \<^verbatim>\<open>conf.type\<close>,
  \<^verbatim>\<open>conf.db_type\<close>, \<^verbatim>\<open>conf.file\<close> (here \<open>conf_file\<close>) and \<^verbatim>\<open>conf.compress\<close>.
\<close>

record GaugeConf =
  conf_type :: string
  db_type :: string
  conf_file :: "string option"
  compress :: bool

text \<open>The classes the factory can return.\<close>

datatype watcher_class =
    GaugePortStateLogger
  | GaugePortStateInfluxDBLogger
  | GaugePortStatePrometheusPoller
  | GaugePortStatsLogger
  | GaugePortStatsInfluxDBLogger
  | GaugePortStatsPrometheusPoller
  | GaugeFlowTableLogger
  | GaugeFlowTableInfluxDBLogger
  | GaugeFlowTablePrometheusPoller
  | GaugeMeterStatsLogger
  | GaugeMeterStatsPrometheusPoller

text \<open>The two-level dictionary \<^verbatim>\<open>WATCHER_TYPES\<close>.\<close>

definition WATCHER_TYPES :: "string \<rightharpoonup> (string \<rightharpoonup> watcher_class)" where
  "WATCHER_TYPES = map_of
     [(''port_state'', map_of
         [(''text'', GaugePortStateLogger),
          (''influx'', GaugePortStateInfluxDBLogger),
          (''prometheus'', GaugePortStatePrometheusPoller)]),
      (''port_stats'', map_of
         [(''text'', GaugePortStatsLogger),
          (''influx'', GaugePortStatsInfluxDBLogger),
          (''prometheus'', GaugePortStatsPrometheusPoller)]),
      (''flow_table'', map_of
         [(''text'', GaugeFlowTableLogger),
          (''influx'', GaugeFlowTableInfluxDBLogger),
          (''prometheus'', GaugeFlowTablePrometheusPoller)]),
      (''meter_stats'', map_of
         [(''text'', GaugeMeterStatsLogger),
          (''prometheus'', GaugeMeterStatsPrometheusPoller)])]"

text \<open>Subscripting a dictionary: a missing key raises \<^verbatim>\<open>KeyError\<close>.\<close>

definition getitem :: "('k \<rightharpoonup> 'v) \<Rightarrow> 'k \<Rightarrow> py_error + 'v" where
  "getitem m k = (case m k of None \<Rightarrow> Inl KeyError | Some v \<Rightarrow> Inr v)"

text \<open>
  \<^verbatim>\<open>watcher_factory(conf)\<close>: the double lookup inside \<^verbatim>\<open>try\<close>, and the
  \<^verbatim>\<open>except KeyError\<close> clause that raises \<^verbatim>\<open>InvalidConfigError('invalid water config')\<close>.
\<close>

definition watcher_factory :: "'a GaugeConf_scheme \<Rightarrow> py_error + watcher_class" where
  "watcher_factory conf =
     (let w_type = conf_type conf;
          db_type = db_type conf;
          attempt = (case getitem WATCHER_TYPES w_type of
                       Inl e \<Rightarrow> Inl e
                     | Inr by_db \<Rightarrow> getitem by_db db_type)
      in case attempt of
           Inl KeyError \<Rightarrow> Inl (InvalidConfigError ''invalid water config'')
         | Inl e \<Rightarrow> Inl e
         | Inr cls \<Rightarrow> Inr cls)"

text \<open>
  The support matrix of the specification (section 4.1), written from its table: each
  checked (report kind, backend kind) pair with the sink it names. It is the reference
  the factory is compared with, not part of the program.
\<close>

definition support_matrix :: "((string \<times> string) \<times> watcher_class) list" where
  "support_matrix =
     [((''port_state'', ''text''), GaugePortStateLogger),
      ((''port_state'', ''influx''), GaugePortStateInfluxDBLogger),
      ((''port_state'', ''prometheus''), GaugePortStatePrometheusPoller),
      ((''port_stats'', ''text''), GaugePortStatsLogger),
      ((''port_stats'', ''influx''), GaugePortStatsInfluxDBLogger),
      ((''port_stats'', ''prometheus''), GaugePortStatsPrometheusPoller),
      ((''flow_table'', ''text''), GaugeFlowTableLogger),
      ((''flow_table'', ''influx''), GaugeFlowTableInfluxDBLogger),
      ((''flow_table'', ''prometheus''), GaugeFlowTablePrometheusPoller),
      ((''meter_stats'', ''text''), GaugeMeterStatsLogger),
      ((''meter_stats'', ''prometheus''), GaugeMeterStatsPrometheusPoller)]"

subsection \<open>The world the sinks write to\<close>

text \<open>
  A file is the sequence of writes appended to it. A plain append adds the text itself;
  an append through \<^verbatim>\<open>gzip.open(filename, 'at')\<close> adds one gzip member whose
  payload is the text written.
\<close>

datatype segment = Plain string | GzipMember string

datatype log_level = DEBUG | INFO | WARNING | ERROR

text \<open>
  The process log (level and line of every record emitted), the files, and which paths
  the operating system lets the process open for appending.
\<close>

record world =
  logged :: "(log_level \<times> string) list"
  files :: "string \<rightharpoonup> segment list"
  appendable :: "string \<Rightarrow> bool"

text \<open>\<^verbatim>\<open>self.logger.info(line)\<close>.\<close>

definition logger_info :: "string \<Rightarrow> world \<Rightarrow> world" where
  "logger_info line w = w\<lparr>logged := logged w @ [(INFO, line)]\<rparr>"

text \<open>
  \<^verbatim>\<open>with open(filename, 'a') as f: f.write(text)\<close> and its gzip variant, as one step:
  opening \<^verbatim>\<open>None\<close> raises \<^verbatim>\<open>TypeError\<close>, a path that cannot be opened (the empty
  path among them) raises \<^verbatim>\<open>OSError\<close>; otherwise the file is created if absent and
  the segment is added at its end. The handle does not outlive the step.
\<close>

definition append_to :: "string option \<Rightarrow> segment \<Rightarrow> world \<Rightarrow> py_error + world" where
  "append_to filename seg w =
     (case filename of
        None \<Rightarrow> Inl TypeError
      | Some path \<Rightarrow>
          if path = [] \<or> \<not> appendable w path then Inl OSError
          else Inr (w\<lparr>files := (files w)
                         (path \<mapsto> (case files w path of None \<Rightarrow> [] | Some old \<Rightarrow> old) @ [seg])\<rparr>))"

text \<open>What a reader of the file gets: the text of a plain file, and the output of gunzip
  on a file made of gzip members (the payloads, concatenated).\<close>

fun read_text :: "segment list \<Rightarrow> string option" where
  "read_text [] = Some []"
| "read_text (Plain s # rest) = map_option (\<lambda>t. s @ t) (read_text rest)"
| "read_text (GzipMember s # rest) = None"

fun gunzip :: "segment list \<Rightarrow> string option" where
  "gunzip [] = Some []"
| "gunzip (GzipMember s # rest) = map_option (\<lambda>t. s @ t) (gunzip rest)"
| "gunzip (Plain s # rest) = (if s = [] then gunzip rest else None)"

definition content :: "world \<Rightarrow> string \<Rightarrow> segment list" where
  "content w path = (case files w path of None \<Rightarrow> [] | Some segs \<Rightarrow> segs)"

subsection \<open>Collaborators from outside the module\<close>

text \<open>
  The constants of \<^verbatim>\<open>ryu.ofproto.ofproto_v1_3\<close> the module compares with. They are
  parameters of the model; \<open>ofproto_v1_3\<close> gives the values OpenFlow 1.3 assigns.
\<close>

record ofproto =
  OFPPR_ADD :: int
  OFPPR_DELETE :: int
  OFPPR_MODIFY :: int
  OFPPS_LINK_DOWN :: int

definition ofproto_v1_3 :: ofproto where
  "ofproto_v1_3 = \<lparr>OFPPR_ADD = 0, OFPPR_DELETE = 1, OFPPR_MODIFY = 2, OFPPS_LINK_DOWN = 1\<rparr>"

text \<open>
  The datapath object \<^verbatim>\<open>self.dp\<close>: its id, its name and its \<^verbatim>\<open>port_labels\<close>
  method, which returns a dictionary of labels or raises.
\<close>

record DP =
  dp_id :: int
  name :: string
  port_labels :: "int \<Rightarrow> py_error + (string \<rightharpoonup> string)"

text \<open>
  A watcher instance: \<^verbatim>\<open>self.dp\<close>, \<^verbatim>\<open>self.conf\<close>, and the helpers it inherits or
  imports that are defined outside this module: \<^verbatim>\<open>dpid_log\<close> (faucet.valve_util),
  \<^verbatim>\<open>self._rcv_time\<close> and \<^verbatim>\<open>self._format_stats\<close> (faucet.gauge_pollers).
\<close>

record ('t, 'r) watcher =
  dp :: DP
  conf :: GaugeConf
  dpid_log :: "int \<Rightarrow> string"
  rcv_time_str_of :: "'t \<Rightarrow> string"
  format_stats :: "string \<Rightarrow> (string list \<times> int) list \<Rightarrow> 'r"

subsection \<open>Port state\<close>

text \<open>The fields of an \<^verbatim>\<open>OFPPortStatus\<close> message that the logger reads.\<close>

record OFPPort =
  port_no :: int
  state :: int

record OFPPortStatus =
  reason :: int
  desc :: OFPPort

text \<open>
  \<^verbatim>\<open>GaugePortStateLogger._update\<close>, first part: the local \<^verbatim>\<open>log_msg\<close> as it stands
  before the datapath prefix is put in front of it.
\<close>

definition port_state_log_msg :: "ofproto \<Rightarrow> OFPPortStatus \<Rightarrow> string" where
  "port_state_log_msg ofp msg =
     (let reason = reason msg;
          port_no = port_no (desc msg);
          log_msg = ''port '' @ str_int port_no @ '' unknown state '' @ str_int reason
      in if reason = OFPPR_ADD ofp then ''port '' @ str_int port_no @ '' added''
         else if reason = OFPPR_DELETE ofp then ''port '' @ str_int port_no @ '' deleted''
         else if reason = OFPPR_MODIFY ofp then
           (let link_down = state (desc msg) AND OFPPS_LINK_DOWN ofp
            in if link_down \<noteq> 0 then ''port '' @ str_int port_no @ '' down''
               else ''port '' @ str_int port_no @ '' up'')
         else log_msg)"

text \<open>
  \<^verbatim>\<open>GaugePortStateLogger._update\<close>, whole: the message is prefixed, logged at info
  level, and written to \<^verbatim>\<open>conf.file\<close> when that is truthy. An error of the write
  leaves the log record in place.
\<close>

definition GaugePortStateLogger_update ::
    "ofproto \<Rightarrow> ('t, 'r) watcher \<Rightarrow> 't \<Rightarrow> OFPPortStatus \<Rightarrow> world \<Rightarrow> (py_error + unit) \<times> world" where
  "GaugePortStateLogger_update ofp self rcv_time msg w =
     (let rcv_time_str = rcv_time_str_of self rcv_time;
          log_msg = port_state_log_msg ofp msg;
          log_msg = dpid_log self (dp_id (dp self)) @ '' '' @ log_msg;
          w = logger_info log_msg w
      in if truthy (conf_file (conf self)) then
           (case append_to (conf_file (conf self))
                   (Plain (join [CHR 0x09] [rcv_time_str, log_msg] @ [CHR 0x0A])) w of
              Inl e \<Rightarrow> (Inl e, w)
            | Inr w' \<Rightarrow> (Inr (), w'))
         else (Inr (), w))"

subsection \<open>Port statistics\<close>

text \<open>The field of a port statistics entry that the logger reads.\<close>

record OFPPortStats =
  stats_port_no :: int

text \<open>\<^verbatim>\<open>GaugePortStatsLogger._dp_stat_name\<close>.\<close>

definition GaugePortStatsLogger_dp_stat_name ::
    "('t, 'r) watcher \<Rightarrow> OFPPortStats \<Rightarrow> string \<Rightarrow> py_error + string" where
  "GaugePortStatsLogger_dp_stat_name self stat stat_name =
     (case port_labels (dp self) (stats_port_no stat) of
        Inl e \<Rightarrow> Inl e
      | Inr labels \<Rightarrow>
          (case getitem labels ''port'' of
             Inl e \<Rightarrow> Inl e
           | Inr port_name \<Rightarrow> Inr (join ''-'' [name (dp self), port_name, stat_name])))"

subsection \<open>Meter statistics\<close>

record OFPMeterBandStats =
  packet_band_count :: int
  byte_band_count :: int

record OFPMeterStats =
  meter_id :: int
  flow_count :: int
  packet_in_count :: int
  byte_in_count :: int
  band_stats :: "OFPMeterBandStats list"

text \<open>
  \<^verbatim>\<open>GaugeMeterStatsLogger._format_stat_pairs\<close>: \<^verbatim>\<open>stat.band_stats[0]\<close> raises
  \<^verbatim>\<open>IndexError\<close> on an empty list; \<open>first_band\<close> is the local \<^verbatim>\<open>band_stats\<close>.
\<close>

definition GaugeMeterStatsLogger_format_stat_pairs ::
    "('t, 'r) watcher \<Rightarrow> string \<Rightarrow> OFPMeterStats \<Rightarrow> py_error + 'r" where
  "GaugeMeterStatsLogger_format_stat_pairs self delim stat =
     (case band_stats stat of
        [] \<Rightarrow> Inl IndexError
      | first_band # _ \<Rightarrow>
          (let stat_pairs =
                 [([''flow'', ''count''], flow_count stat),
                  ([''byte'', ''in'', ''count''], byte_in_count stat),
                  ([''packet'', ''in'', ''count''], packet_in_count stat),
                  ([''byte'', ''band'', ''count''], byte_band_count first_band),
                  ([''packet'', ''band'', ''count''], packet_band_count first_band)]
           in Inr (format_stats self delim stat_pairs)))"

text \<open>\<^verbatim>\<open>GaugeMeterStatsLogger._dp_stat_name\<close>.\<close>

definition GaugeMeterStatsLogger_dp_stat_name ::
    "('t, 'r) watcher \<Rightarrow> OFPMeterStats \<Rightarrow> string \<Rightarrow> string" where
  "GaugeMeterStatsLogger_dp_stat_name self stat stat_name =
     join ''-'' [name (dp self), str_int (meter_id stat), stat_name]"

subsection \<open>Flow table\<close>

text \<open>JSON-compatible values; an object keeps its keys in insertion order.\<close>

datatype json =
    JNull
  | JBool bool
  | JInt int
  | JString string
  | JArray "json list"
  | JObject "(string \<times> json) list"

text \<open>
  \<^verbatim>\<open>GaugeFlowTableLogger._update\<close>. The message's \<^verbatim>\<open>to_jsondict\<close> method (ryu) and
  \<^verbatim>\<open>json.dumps\<close> are parameters. \<open>flow_table_outstr\<close> is the local \<^verbatim>\<open>outstr\<close>.
\<close>

definition flow_table_jsondict ::
    "('m \<Rightarrow> json) \<Rightarrow> ('t, 'r) watcher \<Rightarrow> 't \<Rightarrow> 'm \<Rightarrow> json" where
  "flow_table_jsondict to_jsondict self rcv_time msg =
     (let rcv_time_str = rcv_time_str_of self rcv_time
      in JObject [(''time'', JString rcv_time_str),
                  (''ref'', JString (join ''-'' [name (dp self), ''flowtables''])),
                  (''msg'', to_jsondict msg)])"

definition flow_table_outstr ::
    "('m \<Rightarrow> json) \<Rightarrow> (json \<Rightarrow> string) \<Rightarrow> ('t, 'r) watcher \<Rightarrow> 't \<Rightarrow> 'm \<Rightarrow> string" where
  "flow_table_outstr to_jsondict json_dumps self rcv_time msg =
     ''---'' @ [CHR 0x0A] @ json_dumps (flow_table_jsondict to_jsondict self rcv_time msg)
       @ [CHR 0x0A]"

definition GaugeFlowTableLogger_update ::
    "('m \<Rightarrow> json) \<Rightarrow> (json \<Rightarrow> string) \<Rightarrow> ('t, 'r) watcher \<Rightarrow> 't \<Rightarrow> 'm \<Rightarrow> world
       \<Rightarrow> (py_error + unit) \<times> world" where
  "GaugeFlowTableLogger_update to_jsondict json_dumps self rcv_time msg w =
     (let filename = conf_file (conf self);
          outstr = flow_table_outstr to_jsondict json_dumps self rcv_time msg
      in if compress (conf self) then
           (case append_to filename (GzipMember outstr) w of
              Inl e \<Rightarrow> (Inl e, w)
            | Inr w' \<Rightarrow> (Inr (), w'))
         else
           (case append_to filename (Plain outstr) w of
              Inl e \<Rightarrow> (Inl e, w)
            | Inr w' \<Rightarrow> (Inr (), w')))"

text \<open>
  The poller calling \<^verbatim>\<open>_update\<close> once per reply, in order; an exception ends the run.
\<close>

fun flow_table_updates ::
    "('m \<Rightarrow> json) \<Rightarrow> (json \<Rightarrow> string) \<Rightarrow> ('t, 'r) watcher \<Rightarrow> ('t \<times> 'm) list \<Rightarrow> world
       \<Rightarrow> (py_error + unit) \<times> world" where
  "flow_table_updates to_jsondict json_dumps self [] w = (Inr (), w)"
| "flow_table_updates to_jsondict json_dumps self ((rcv_time, msg) # calls) w =
     (case GaugeFlowTableLogger_update to_jsondict json_dumps self rcv_time msg w of
        (Inl e, w') \<Rightarrow> (Inl e, w')
      | (Inr _, w') \<Rightarrow> flow_table_updates to_jsondict json_dumps self calls w')"

subsection \<open>Concrete inputs\<close>

text \<open>
  Stand-ins for the collaborators, to run the model on concrete inputs: a datapath with
  one labelled port, a serialiser in the style of \<^verbatim>\<open>json.dumps\<close> (no string
  escaping), receive times and flow-table messages as integers and integer lists, a
  formatter that joins the key path, and a world where only two paths can be opened.
\<close>

definition demo_dp :: DP where
  "demo_dp = \<lparr>dp_id = 1, name = ''sw1'',
               port_labels = (\<lambda>p. if p = 3 then Inr [''port'' \<mapsto> ''uplink'']
                                   else if p = 4 then Inr Map.empty
                                   else Inl KeyError)\<rparr>"

definition demo_watcher :: "GaugeConf \<Rightarrow> (int, (string \<times> int) list) watcher" where
  "demo_watcher c =
     \<lparr>dp = demo_dp, conf = c,
      dpid_log = (\<lambda>i. ''DPID '' @ str_int i),
      rcv_time_str_of = str_int,
      format_stats = (\<lambda>delim. map (\<lambda>(k, v). (join delim k, v)))\<rparr>"

definition demo_conf :: "string option \<Rightarrow> bool \<Rightarrow> GaugeConf" where
  "demo_conf f c = \<lparr>conf_type = ''flow_table'', db_type = ''text'', conf_file = f, compress = c\<rparr>"

definition demo_to_jsondict :: "int list \<Rightarrow> json" where
  "demo_to_jsondict xs = JArray (map JInt xs)"

fun demo_dumps :: "json \<Rightarrow> string" where
  "demo_dumps JNull = ''null''"
| "demo_dumps (JBool b) = (if b then ''true'' else ''false'')"
| "demo_dumps (JInt i) = str_int i"
| "demo_dumps (JString s) = [CHR 0x22] @ s @ [CHR 0x22]"
| "demo_dumps (JArray xs) = ''['' @ join '', '' (map demo_dumps xs) @ '']''"
| "demo_dumps (JObject kvs) =
     ''{'' @ join '', '' (map (\<lambda>kv. [CHR 0x22] @ fst kv @ [CHR 0x22] @ '': '' @ demo_dumps (snd kv)) kvs)
       @ ''}''"

declare demo_dumps.simps [simp del]

definition demo_world :: world where
  "demo_world = \<lparr>logged = [], files = Map.empty,
                  appendable = (\<lambda>p. p = ''gauge.log'' \<or> p = ''flows.json'')\<rparr>"

definition demo_port_added :: OFPPortStatus where
  "demo_port_added = \<lparr>reason = 0, desc = \<lparr>port_no = 3, state = 0\<rparr>\<rparr>"

section \<open>Properties\<close>

subsection \<open>The concrete inputs, evaluated\<close>

lemma demo_file [simp]: "conf_file (conf (demo_watcher (demo_conf f c))) = f"
  by (simp add: demo_watcher_def demo_conf_def)

lemma demo_compress [simp]: "compress (conf (demo_watcher (demo_conf f c))) = c"
  by (simp add: demo_watcher_def demo_conf_def)

lemma demo_conf_compress [simp]:
  "(demo_watcher (demo_conf f c))\<lparr>conf := (conf (demo_watcher (demo_conf f c)))\<lparr>compress := c'\<rparr>\<rparr>
     = demo_watcher (demo_conf f c')"
  by (simp add: demo_watcher_def demo_conf_def)

lemma demo_appendable [simp]:
  "appendable demo_world p = (p = ''gauge.log'' \<or> p = ''flows.json'')"
  by (simp add: demo_world_def)

lemma demo_content [simp]: "content demo_world p = []"
  by (simp add: demo_world_def content_def)

lemma demo_logged [simp]: "logged demo_world = []"
  by (simp add: demo_world_def)

lemma str_int_3: "str_int 3 = ''3''"
  by (simp add: str_int_def str_nat.simps digit_char_def)

lemma str_int_5: "str_int 5 = ''5''"
  by (simp add: str_int_def str_nat.simps digit_char_def)

lemma str_int_7: "str_int 7 = ''7''"
  by (simp add: str_int_def str_nat.simps digit_char_def)

lemma str_int_99: "str_int 99 = ''99''"
  by (simp add: str_int_def str_nat.simps digit_char_def)

lemma demo_dpid_log: "dpid_log (demo_watcher c) (dp_id (dp (demo_watcher c))) = ''DPID 1''"
  by (simp add: demo_watcher_def demo_dp_def str_int_def str_nat.simps digit_char_def)

lemma demo_port_added_msg: "port_state_log_msg ofproto_v1_3 demo_port_added = ''port 3 added''"
  by (simp add: demo_port_added_def port_state_log_msg_def ofproto_v1_3_def str_int_3)

lemma demo_rcv_time: "rcv_time_str_of (demo_watcher c) 5 = ''5''"
  by (simp add: demo_watcher_def str_int_5)



subsection \<open>The watcher factory\<close>

text \<open>The two-level lookup, one key at a time.\<close>

lemma WATCHER_TYPES_unfold:
  "WATCHER_TYPES w =
     (if w = ''port_state'' then Some (map_of
         [(''text'', GaugePortStateLogger),
          (''influx'', GaugePortStateInfluxDBLogger),
          (''prometheus'', GaugePortStatePrometheusPoller)])
      else if w = ''port_stats'' then Some (map_of
         [(''text'', GaugePortStatsLogger),
          (''influx'', GaugePortStatsInfluxDBLogger),
          (''prometheus'', GaugePortStatsPrometheusPoller)])
      else if w = ''flow_table'' then Some (map_of
         [(''text'', GaugeFlowTableLogger),
          (''influx'', GaugeFlowTableInfluxDBLogger),
          (''prometheus'', GaugeFlowTablePrometheusPoller)])
      else if w = ''meter_stats'' then Some (map_of
         [(''text'', GaugeMeterStatsLogger),
          (''prometheus'', GaugeMeterStatsPrometheusPoller)])
      else None)"
  by (simp add: WATCHER_TYPES_def)

lemma watcher_factory_cases:
  "watcher_factory cfg =
     (case map_of support_matrix (conf_type cfg, db_type cfg) of
        Some cls \<Rightarrow> Inr cls
      | None \<Rightarrow> Inl (InvalidConfigError ''invalid water config''))"
  unfolding watcher_factory_def getitem_def support_matrix_def Let_def WATCHER_TYPES_unfold
  by (simp split: option.splits sum.splits py_error.splits)

text \<open>
  C1. For every (report kind, backend kind) pair checked in the support matrix,
  \<open>watcher_factory\<close> succeeds with the sink class the matrix names for it; for every pair
  absent from the matrix, (meter_stats, influx) among them, it raises
  \<open>InvalidConfigError\<close>.
\<close>

theorem watcher_factory_support_matrix:
  "(map_of support_matrix (conf_type cfg, db_type cfg) = Some cls
      \<longrightarrow> watcher_factory cfg = Inr cls) \<and>
   (map_of support_matrix (conf_type cfg, db_type cfg) = None
      \<longrightarrow> (\<exists>msg. watcher_factory cfg = Inl (InvalidConfigError msg)))"
  by (simp add: watcher_factory_cases)

theorem watcher_factory_support_matrix_witness:
  "watcher_factory \<lparr>conf_type = ''meter_stats'', db_type = ''text'', conf_file = None, compress = False\<rparr>
     = Inr GaugeMeterStatsLogger \<and>
   (\<exists>msg. watcher_factory \<lparr>conf_type = ''meter_stats'', db_type = ''influx'', conf_file = None, compress = False\<rparr>
     = Inl (InvalidConfigError msg))"
  using watcher_factory_support_matrix
          [of "\<lparr>conf_type = ''meter_stats'', db_type = ''text'', conf_file = None, compress = False\<rparr>"
              GaugeMeterStatsLogger]
        watcher_factory_support_matrix
          [of "\<lparr>conf_type = ''meter_stats'', db_type = ''influx'', conf_file = None, compress = False\<rparr>"]
  by (simp add: support_matrix_def)

text \<open>
  C2, as stated, fails: the error raised for the unsupported pair (meter_stats, influx)
  carries the message \<^verbatim>\<open>invalid water config\<close>, in which neither \<^verbatim>\<open>meter_stats\<close> nor
  \<^verbatim>\<open>influx\<close> occurs, and the unrelated unsupported pair (port_state, csv) gets the very
  same error.
\<close>

theorem watcher_factory_message_counterexample:
  "watcher_factory \<lparr>conf_type = ''meter_stats'', db_type = ''influx'', conf_file = None, compress = False\<rparr>
     = Inl (InvalidConfigError ''invalid water config'') \<and>
   \<not> sublist ''meter_stats'' ''invalid water config'' \<and>
   \<not> sublist ''influx'' ''invalid water config'' \<and>
   watcher_factory \<lparr>conf_type = ''port_state'', db_type = ''csv'', conf_file = None, compress = False\<rparr>
     = Inl (InvalidConfigError ''invalid water config'')"
  by (simp add: watcher_factory_cases support_matrix_def sublist_Cons_right)

text \<open>
  C2, amended: whenever \<open>watcher_factory\<close> rejects a configuration, the error is
  \<open>InvalidConfigError\<close> with the fixed message \<^verbatim>\<open>invalid water config\<close>, whatever the
  rejected pair is.
\<close>

theorem watcher_factory_fixed_message:
  "watcher_factory cfg = Inl e \<Longrightarrow> e = InvalidConfigError ''invalid water config''"
  by (simp add: watcher_factory_cases split: option.splits)

theorem watcher_factory_fixed_message_witness:
  "watcher_factory \<lparr>conf_type = ''meter_stats'', db_type = ''influx'', conf_file = None, compress = False\<rparr>
     = Inl (InvalidConfigError ''invalid water config'')"
proof -
  have "\<exists>e. watcher_factory \<lparr>conf_type = ''meter_stats'', db_type = ''influx'', conf_file = None, compress = False\<rparr> = Inl e"
    by (simp add: watcher_factory_def getitem_def WATCHER_TYPES_def)
  then obtain e where e: "watcher_factory \<lparr>conf_type = ''meter_stats'', db_type = ''influx'', conf_file = None, compress = False\<rparr> = Inl e" ..
  from watcher_factory_fixed_message [OF e] e show ?thesis by simp
qed

subsection \<open>Port state messages\<close>

text \<open>
  C3. The message rendered for a port status report is \<^verbatim>\<open>port N added\<close> for reason
  ADD, \<^verbatim>\<open>port N deleted\<close> for DELETE, \<^verbatim>\<open>port N down\<close> and \<^verbatim>\<open>port N up\<close> for
  MODIFY with the link-down bit of the port state set and clear, and
  \<^verbatim>\<open>port N unknown state R\<close> for every other reason code R; the rendering has no failing
  branch. The three reason constants are taken to be pairwise different, as they are in
  OpenFlow.
\<close>

theorem port_state_log_msg_table:
  assumes "distinct [OFPPR_ADD ofp, OFPPR_DELETE ofp, OFPPR_MODIFY ofp]"
  shows
    "(reason msg = OFPPR_ADD ofp \<longrightarrow>
        port_state_log_msg ofp msg = ''port '' @ str_int (port_no (desc msg)) @ '' added'') \<and>
     (reason msg = OFPPR_DELETE ofp \<longrightarrow>
        port_state_log_msg ofp msg = ''port '' @ str_int (port_no (desc msg)) @ '' deleted'') \<and>
     (reason msg = OFPPR_MODIFY ofp \<and> state (desc msg) AND OFPPS_LINK_DOWN ofp \<noteq> 0 \<longrightarrow>
        port_state_log_msg ofp msg = ''port '' @ str_int (port_no (desc msg)) @ '' down'') \<and>
     (reason msg = OFPPR_MODIFY ofp \<and> state (desc msg) AND OFPPS_LINK_DOWN ofp = 0 \<longrightarrow>
        port_state_log_msg ofp msg = ''port '' @ str_int (port_no (desc msg)) @ '' up'') \<and>
     (reason msg \<notin> {OFPPR_ADD ofp, OFPPR_DELETE ofp, OFPPR_MODIFY ofp} \<longrightarrow>
        port_state_log_msg ofp msg =
          ''port '' @ str_int (port_no (desc msg)) @ '' unknown state '' @ str_int (reason msg))"
  using assms by (simp add: port_state_log_msg_def Let_def)

theorem port_state_log_msg_table_witness:
  "port_state_log_msg ofproto_v1_3 \<lparr>reason = 0, desc = \<lparr>port_no = 3, state = 0\<rparr>\<rparr> = ''port 3 added'' \<and>
   port_state_log_msg ofproto_v1_3 \<lparr>reason = 1, desc = \<lparr>port_no = 3, state = 0\<rparr>\<rparr> = ''port 3 deleted'' \<and>
   port_state_log_msg ofproto_v1_3 \<lparr>reason = 2, desc = \<lparr>port_no = 3, state = 5\<rparr>\<rparr> = ''port 3 down'' \<and>
   port_state_log_msg ofproto_v1_3 \<lparr>reason = 2, desc = \<lparr>port_no = 3, state = 4\<rparr>\<rparr> = ''port 3 up'' \<and>
   port_state_log_msg ofproto_v1_3 \<lparr>reason = 99, desc = \<lparr>port_no = 7, state = 0\<rparr>\<rparr> = ''port 7 unknown state 99''"
proof -
  have d: "distinct [OFPPR_ADD ofproto_v1_3, OFPPR_DELETE ofproto_v1_3, OFPPR_MODIFY ofproto_v1_3]"
    by (simp add: ofproto_v1_3_def)
  have b5: "(5::int) AND 1 \<noteq> 0" by simp
  have b4: "(4::int) AND 1 = 0" by simp
  show ?thesis
    using port_state_log_msg_table [OF d, of "\<lparr>reason = 0, desc = \<lparr>port_no = 3, state = 0\<rparr>\<rparr>"]
          port_state_log_msg_table [OF d, of "\<lparr>reason = 1, desc = \<lparr>port_no = 3, state = 0\<rparr>\<rparr>"]
          port_state_log_msg_table [OF d, of "\<lparr>reason = 2, desc = \<lparr>port_no = 3, state = 5\<rparr>\<rparr>"]
          port_state_log_msg_table [OF d, of "\<lparr>reason = 2, desc = \<lparr>port_no = 3, state = 4\<rparr>\<rparr>"]
          port_state_log_msg_table [OF d, of "\<lparr>reason = 99, desc = \<lparr>port_no = 7, state = 0\<rparr>\<rparr>"]
          b5 b4
    by (simp add: ofproto_v1_3_def str_int_3 str_int_7 str_int_99)
qed

subsection \<open>Meter statistics\<close>

text \<open>
  C4. For a meter statistics entry whose band list is not empty, the pairs handed to the
  formatter are exactly five, in the order (flow, count), (byte, in, count),
  (packet, in, count), (byte, band, count), (packet, band, count), with the two band values
  read from the first band; bands after the first do not change the result.
\<close>

theorem format_stat_pairs_first_band:
  "GaugeMeterStatsLogger_format_stat_pairs self delim (stat\<lparr>band_stats := b # others\<rparr>) =
     Inr (format_stats self delim
       [([''flow'', ''count''], flow_count stat),
        ([''byte'', ''in'', ''count''], byte_in_count stat),
        ([''packet'', ''in'', ''count''], packet_in_count stat),
        ([''byte'', ''band'', ''count''], byte_band_count b),
        ([''packet'', ''band'', ''count''], packet_band_count b)]) \<and>
   GaugeMeterStatsLogger_format_stat_pairs self delim (stat\<lparr>band_stats := b # others\<rparr>) =
     GaugeMeterStatsLogger_format_stat_pairs self delim (stat\<lparr>band_stats := [b]\<rparr>)"
  by (simp add: GaugeMeterStatsLogger_format_stat_pairs_def)

theorem format_stat_pairs_first_band_witness:
  "GaugeMeterStatsLogger_format_stat_pairs (demo_watcher (demo_conf None False)) ''_''
     \<lparr>meter_id = 1, flow_count = 5, packet_in_count = 10, byte_in_count = 100,
      band_stats = [\<lparr>packet_band_count = 4, byte_band_count = 50\<rparr>,
                    \<lparr>packet_band_count = 8, byte_band_count = 9\<rparr>]\<rparr>
   = Inr [(''flow_count'', 5), (''byte_in_count'', 100), (''packet_in_count'', 10),
          (''byte_band_count'', 50), (''packet_band_count'', 4)]"
  using format_stat_pairs_first_band
    [where self = "demo_watcher (demo_conf None False)" and delim = "''_''"
       and stat = "\<lparr>meter_id = 1, flow_count = 5, packet_in_count = 10, byte_in_count = 100,
                     band_stats = []\<rparr>"
       and b = "\<lparr>packet_band_count = 4, byte_band_count = 50\<rparr>"
       and others = "[\<lparr>packet_band_count = 8, byte_band_count = 9\<rparr>]"]
  by (simp add: demo_watcher_def)

subsection \<open>Port statistics names\<close>

text \<open>
  C5. The series name of the port statistics logger is the datapath name, the label the
  datapath gives for the entry's port number under the key \<^verbatim>\<open>port\<close>, and the counter
  name, joined by hyphens: a function of these three strings only. The label is whatever
  \<open>port_labels\<close> returns at this call; when the lookup fails the failure is the
  result, with no default put in its place.
\<close>

theorem dp_stat_name_composition:
  "(port_labels (dp self) (stats_port_no stat) = Inr labels \<and> labels ''port'' = Some port_label \<longrightarrow>
      GaugePortStatsLogger_dp_stat_name self stat counter_name =
        Inr (name (dp self) @ ''-'' @ port_label @ ''-'' @ counter_name)) \<and>
   (port_labels (dp self) (stats_port_no stat) = Inl e \<longrightarrow>
      GaugePortStatsLogger_dp_stat_name self stat counter_name = Inl e) \<and>
   (port_labels (dp self) (stats_port_no stat) = Inr labels \<and> labels ''port'' = None \<longrightarrow>
      GaugePortStatsLogger_dp_stat_name self stat counter_name = Inl KeyError)"
  by (simp add: GaugePortStatsLogger_dp_stat_name_def getitem_def)

theorem dp_stat_name_composition_witness:
  "GaugePortStatsLogger_dp_stat_name (demo_watcher (demo_conf None False))
     \<lparr>stats_port_no = 3\<rparr> ''rx_bytes'' = Inr ''sw1-uplink-rx_bytes'' \<and>
   GaugePortStatsLogger_dp_stat_name (demo_watcher (demo_conf None False))
     \<lparr>stats_port_no = 4\<rparr> ''rx_bytes'' = Inl KeyError \<and>
   GaugePortStatsLogger_dp_stat_name (demo_watcher (demo_conf None False))
     \<lparr>stats_port_no = 9\<rparr> ''rx_bytes'' = Inl KeyError"
  using dp_stat_name_composition
          [where self = "demo_watcher (demo_conf None False)" and stat = "\<lparr>stats_port_no = 3\<rparr>"
             and labels = "[''port'' \<mapsto> ''uplink'']" and port_label = "''uplink''"
             and counter_name = "''rx_bytes''"]
        dp_stat_name_composition
          [where self = "demo_watcher (demo_conf None False)" and stat = "\<lparr>stats_port_no = 4\<rparr>"
             and labels = "Map.empty" and counter_name = "''rx_bytes''"]
        dp_stat_name_composition
          [where self = "demo_watcher (demo_conf None False)" and stat = "\<lparr>stats_port_no = 9\<rparr>"
             and e = KeyError and counter_name = "''rx_bytes''"]
  by (simp add: demo_watcher_def demo_dp_def)

subsection \<open>Appending to files\<close>

lemma append_to_ok:
  "path \<noteq> [] \<Longrightarrow> appendable w path \<Longrightarrow>
     append_to (Some path) seg w = Inr (w\<lparr>files := (files w)(path \<mapsto> content w path @ [seg])\<rparr>)"
  by (simp add: append_to_def content_def)

lemma flow_table_outstr_conf [simp]:
  "flow_table_outstr tj dumps (self\<lparr>conf := c\<rparr>) = flow_table_outstr tj dumps self"
  by (simp add: flow_table_outstr_def flow_table_jsondict_def fun_eq_iff)

subsection \<open>Flow table documents\<close>

text \<open>
  C6. When the configured path can be opened, one call of the flow table logger's update
  appends exactly one record to that file and changes nothing else: the text
  \<^verbatim>\<open>---\<close>, a newline, the serialised JSON object, a newline, where the object has
  exactly the fields \<^verbatim>\<open>time\<close> (the rendered receive time), \<^verbatim>\<open>ref\<close> (the datapath
  name followed by \<^verbatim>\<open>-flowtables\<close>) and \<^verbatim>\<open>msg\<close> (the message as a JSON structure).
  With \<^verbatim>\<open>compress\<close> set the record is the payload of one appended gzip member.
\<close>

theorem flow_table_update_document:
  assumes "conf_file (conf self) = Some path" and "path \<noteq> []" and "appendable w path"
  shows "GaugeFlowTableLogger_update tj dumps self t msg w =
     (Inr (), w\<lparr>files := (files w)(path \<mapsto> content w path @
        [(if compress (conf self) then GzipMember else Plain)
           (''---'' @ [CHR 0x0A] @
            dumps (JObject [(''time'', JString (rcv_time_str_of self t)),
                            (''ref'', JString (name (dp self) @ ''-flowtables'')),
                            (''msg'', tj msg)]) @
            [CHR 0x0A])])\<rparr>)"
  using assms
  by (simp add: GaugeFlowTableLogger_update_def Let_def append_to_ok flow_table_outstr_def
        flow_table_jsondict_def)

theorem flow_table_update_document_witness:
  "GaugeFlowTableLogger_update demo_to_jsondict demo_dumps
       (demo_watcher (demo_conf (Some ''flows.json'') False)) 5 [1, 2] demo_world =
     (Inr (), demo_world\<lparr>files := (files demo_world)(''flows.json'' \<mapsto>
        [Plain (''---'' @ [CHR 0x0A] @
                demo_dumps (JObject [(''time'', JString ''5''),
                                     (''ref'', JString ''sw1-flowtables''),
                                     (''msg'', JArray [JInt 1, JInt 2])]) @
                [CHR 0x0A])])\<rparr>)"
  using flow_table_update_document
          [where self = "demo_watcher (demo_conf (Some ''flows.json'') False)"
             and path = "''flows.json''" and w = demo_world
             and tj = demo_to_jsondict and dumps = demo_dumps and t = 5 and msg = "[1, 2]"]
  by (simp add: demo_to_jsondict_def str_int_5 demo_watcher_def demo_dp_def demo_conf_def)

lemma flow_table_update_content:
  assumes "conf_file (conf self) = Some path" and "path \<noteq> []" and "appendable w path"
  shows "fst (GaugeFlowTableLogger_update tj dumps self t msg w) = Inr ()"
    and "content (snd (GaugeFlowTableLogger_update tj dumps self t msg w)) path =
           content w path @ [(if compress (conf self) then GzipMember else Plain)
                               (flow_table_outstr tj dumps self t msg)]"
    and "appendable (snd (GaugeFlowTableLogger_update tj dumps self t msg w)) = appendable w"
  using assms
  by (simp_all add: GaugeFlowTableLogger_update_def Let_def append_to_ok content_def)

lemma flow_table_updates_content:
  assumes "conf_file (conf self) = Some path" and "path \<noteq> []" and "appendable w path"
  shows "fst (flow_table_updates tj dumps self calls w) = Inr () \<and>
         content (snd (flow_table_updates tj dumps self calls w)) path =
           content w path @ map (\<lambda>(t, m). (if compress (conf self) then GzipMember else Plain)
                                            (flow_table_outstr tj dumps self t m)) calls"
  using assms(3)
proof (induction calls arbitrary: w)
  case Nil
  show ?case by simp
next
  case (Cons call calls)
  obtain t m where call: "call = (t, m)" by (cases call)
  let ?u = "GaugeFlowTableLogger_update tj dumps self t m w"
  obtain r w' where u: "?u = (r, w')" by (cases ?u)
  have r: "r = Inr ()"
    using flow_table_update_content(1) [OF assms(1,2) Cons.prems, of tj dumps t m] u by simp
  have c: "content w' path = content w path @
             [(if compress (conf self) then GzipMember else Plain) (flow_table_outstr tj dumps self t m)]"
    using flow_table_update_content(2) [OF assms(1,2) Cons.prems, of tj dumps t m] u by simp
  have a: "appendable w' path"
    using flow_table_update_content(3) [OF assms(1,2) Cons.prems, of tj dumps t m] u Cons.prems
    by simp
  show ?case
    using Cons.IH [OF a] by (simp add: call u r c)
qed

lemma read_text_Plain: "read_text (map (Plain \<circ> f) xs) = Some (concat (map f xs))"
  by (induction xs) simp_all

lemma gunzip_GzipMember: "gunzip (map (GzipMember \<circ> f) xs) = Some (concat (map f xs))"
  by (induction xs) simp_all

text \<open>
  C7. For the same sequence of update calls on a file that starts empty, the file written
  with \<^verbatim>\<open>compress\<close> set decompresses to exactly the text of the file written without
  it: both runs succeed, the plain file holds the records in call order, and gunzip of the
  compressed file yields the same text.
\<close>

theorem flow_table_compressed_same_text:
  assumes "conf_file (conf self) = Some path" and "path \<noteq> []" and "appendable w path"
    and "content w path = []"
  shows
    "(let plain = flow_table_updates tj dumps (self\<lparr>conf := (conf self)\<lparr>compress := False\<rparr>\<rparr>) calls w;
          gz = flow_table_updates tj dumps (self\<lparr>conf := (conf self)\<lparr>compress := True\<rparr>\<rparr>) calls w
      in fst plain = Inr () \<and> fst gz = Inr () \<and>
         read_text (content (snd plain) path) =
           Some (concat (map (\<lambda>(t, m). flow_table_outstr tj dumps self t m) calls)) \<and>
         gunzip (content (snd gz) path) = read_text (content (snd plain) path))"
proof -
  let ?p = "self\<lparr>conf := (conf self)\<lparr>compress := False\<rparr>\<rparr>"
  let ?g = "self\<lparr>conf := (conf self)\<lparr>compress := True\<rparr>\<rparr>"
  let ?docs = "map (\<lambda>(t, m). flow_table_outstr tj dumps self t m) calls"
  have fp: "conf_file (conf ?p) = Some path" and fg: "conf_file (conf ?g) = Some path"
    using assms(1) by simp_all
  have p: "fst (flow_table_updates tj dumps ?p calls w) = Inr ()"
      "content (snd (flow_table_updates tj dumps ?p calls w)) path = map Plain ?docs"
    using flow_table_updates_content [OF fp assms(2,3), of tj dumps calls] assms(4)
    by (simp_all add: case_prod_unfold comp_def)
  have g: "fst (flow_table_updates tj dumps ?g calls w) = Inr ()"
      "content (snd (flow_table_updates tj dumps ?g calls w)) path = map GzipMember ?docs"
    using flow_table_updates_content [OF fg assms(2,3), of tj dumps calls] assms(4)
    by (simp_all add: case_prod_unfold comp_def)
  show ?thesis
    unfolding Let_def p g by (simp add: read_text_Plain gunzip_GzipMember)
qed

theorem flow_table_compressed_same_text_witness:
  "fst (flow_table_updates demo_to_jsondict demo_dumps
          (demo_watcher (demo_conf (Some ''flows.json'') False)) [(5, [1, 2]), (7, [])] demo_world)
     = Inr () \<and>
   fst (flow_table_updates demo_to_jsondict demo_dumps
          (demo_watcher (demo_conf (Some ''flows.json'') True)) [(5, [1, 2]), (7, [])] demo_world)
     = Inr () \<and>
   gunzip (content (snd (flow_table_updates demo_to_jsondict demo_dumps
          (demo_watcher (demo_conf (Some ''flows.json'') True)) [(5, [1, 2]), (7, [])] demo_world))
        ''flows.json'') =
   read_text (content (snd (flow_table_updates demo_to_jsondict demo_dumps
          (demo_watcher (demo_conf (Some ''flows.json'') False)) [(5, [1, 2]), (7, [])] demo_world))
        ''flows.json'')"
  using flow_table_compressed_same_text
          [where self = "demo_watcher (demo_conf (Some ''flows.json'') False)"
             and path = "''flows.json''" and w = demo_world
             and tj = demo_to_jsondict and dumps = demo_dumps and calls = "[(5, [1, 2]), (7, [])]"]
  by (simp add: Let_def)

subsection \<open>Port state updates\<close>

text \<open>
  C8. Every update of the port state logger emits the rendered message, prefixed with the
  datapath identity, to the log at info level. When \<^verbatim>\<open>conf.file\<close> is not set (or
  empty) nothing else changes. When it names a path that can be opened, the line made of
  the rendered receive time, a tab, the same prefixed message and a newline is appended to
  that file, and nothing else changes. When the path cannot be opened the error is the
  result, after the log record.
\<close>

theorem port_state_update_effects:
  "(let line = dpid_log self (dp_id (dp self)) @ '' '' @ port_state_log_msg ofp msg;
        result = GaugePortStateLogger_update ofp self t msg w
    in (\<not> truthy (conf_file (conf self)) \<longrightarrow>
          result = (Inr (), w\<lparr>logged := logged w @ [(INFO, line)]\<rparr>)) \<and>
       (conf_file (conf self) = Some path \<and> path \<noteq> [] \<and> appendable w path \<longrightarrow>
          result = (Inr (), w\<lparr>logged := logged w @ [(INFO, line)],
                               files := (files w)(path \<mapsto> content w path @
                                 [Plain (rcv_time_str_of self t @ [CHR 0x09] @ line @ [CHR 0x0A])])\<rparr>)) \<and>
       (conf_file (conf self) = Some path \<and> path \<noteq> [] \<and> \<not> appendable w path \<longrightarrow>
          result = (Inl OSError, w\<lparr>logged := logged w @ [(INFO, line)]\<rparr>)))"
  by (simp add: GaugePortStateLogger_update_def Let_def logger_info_def append_to_def content_def)

theorem port_state_update_effects_witness:
  "GaugePortStateLogger_update ofproto_v1_3 (demo_watcher (demo_conf None False)) 5
       demo_port_added demo_world =
     (Inr (), demo_world\<lparr>logged := [(INFO, ''DPID 1 port 3 added'')]\<rparr>) \<and>
   GaugePortStateLogger_update ofproto_v1_3 (demo_watcher (demo_conf (Some ''gauge.log'') False)) 5
       demo_port_added demo_world =
     (Inr (), demo_world\<lparr>logged := [(INFO, ''DPID 1 port 3 added'')],
                          files := (files demo_world)(''gauge.log'' \<mapsto>
                            [Plain (''5'' @ [CHR 0x09] @ ''DPID 1 port 3 added'' @ [CHR 0x0A])])\<rparr>) \<and>
   GaugePortStateLogger_update ofproto_v1_3 (demo_watcher (demo_conf (Some ''denied.log'') False)) 5
       demo_port_added demo_world =
     (Inl OSError, demo_world\<lparr>logged := [(INFO, ''DPID 1 port 3 added'')]\<rparr>)"
  using port_state_update_effects
          [where self = "demo_watcher (demo_conf None False)" and ofp = ofproto_v1_3
             and msg = demo_port_added and t = 5 and w = demo_world]
        port_state_update_effects
          [where self = "demo_watcher (demo_conf (Some ''gauge.log'') False)" and ofp = ofproto_v1_3
             and msg = demo_port_added and t = 5 and w = demo_world and path = "''gauge.log''"]
        port_state_update_effects
          [where self = "demo_watcher (demo_conf (Some ''denied.log'') False)" and ofp = ofproto_v1_3
             and msg = demo_port_added and t = 5 and w = demo_world and path = "''denied.log''"]
  by (simp add: Let_def demo_dpid_log demo_port_added_msg demo_rcv_time)

text \<open>
  C9. The flow table logger's update opens \<^verbatim>\<open>conf.file\<close> without testing it: with
  no path configured the call fails at the open (\<open>TypeError\<close> for \<^verbatim>\<open>None\<close>,
  \<open>OSError\<close> for the empty path) and leaves the world as it was, where the port state
  logger's update skips the write and succeeds. With a path that can be opened the flow
  table update succeeds.
\<close>

theorem flow_table_update_needs_file:
  "(conf_file (conf self) = None \<longrightarrow>
      GaugeFlowTableLogger_update tj dumps self t m w = (Inl TypeError, w)) \<and>
   (conf_file (conf self) = Some [] \<longrightarrow>
      GaugeFlowTableLogger_update tj dumps self t m w = (Inl OSError, w)) \<and>
   (\<not> truthy (conf_file (conf self)) \<longrightarrow>
      fst (GaugePortStateLogger_update ofp self t msg w) = Inr () \<and>
      files (snd (GaugePortStateLogger_update ofp self t msg w)) = files w) \<and>
   (conf_file (conf self) = Some path \<and> path \<noteq> [] \<and> appendable w path \<longrightarrow>
      fst (GaugeFlowTableLogger_update tj dumps self t m w) = Inr ())"
  by (simp add: GaugeFlowTableLogger_update_def GaugePortStateLogger_update_def Let_def
        logger_info_def append_to_def)

theorem flow_table_update_needs_file_witness:
  "GaugeFlowTableLogger_update demo_to_jsondict demo_dumps
       (demo_watcher (demo_conf None False)) 5 [1, 2] demo_world = (Inl TypeError, demo_world) \<and>
   GaugeFlowTableLogger_update demo_to_jsondict demo_dumps
       (demo_watcher (demo_conf (Some []) False)) 5 [1, 2] demo_world = (Inl OSError, demo_world) \<and>
   fst (GaugePortStateLogger_update ofproto_v1_3 (demo_watcher (demo_conf None False)) 5
          demo_port_added demo_world) = Inr () \<and>
   fst (GaugePortStateLogger_update ofproto_v1_3 (demo_watcher (demo_conf (Some []) False)) 5
          demo_port_added demo_world) = Inr () \<and>
   fst (GaugeFlowTableLogger_update demo_to_jsondict demo_dumps
          (demo_watcher (demo_conf (Some ''flows.json'') False)) 5 [1, 2] demo_world) = Inr ()"
  using flow_table_update_needs_file
          [where self = "demo_watcher (demo_conf None False)" and ofp = ofproto_v1_3
             and tj = demo_to_jsondict and dumps = demo_dumps and m = "[1, 2]"
             and msg = demo_port_added and t = 5 and w = demo_world]
        flow_table_update_needs_file
          [where self = "demo_watcher (demo_conf (Some []) False)" and ofp = ofproto_v1_3
             and tj = demo_to_jsondict and dumps = demo_dumps and m = "[1, 2]"
             and msg = demo_port_added and t = 5 and w = demo_world]
        flow_table_update_needs_file
          [where self = "demo_watcher (demo_conf (Some ''flows.json'') False)" and ofp = ofproto_v1_3
             and tj = demo_to_jsondict and dumps = demo_dumps and m = "[1, 2]"
             and msg = demo_port_added and t = 5 and w = demo_world and path = "''flows.json''"]
  by simp

text \<open>
  C10. With no file configured, two successive updates of the port state logger with the
  same receive time and the same report both succeed and each adds the same info record
  to the log; the files are untouched.
\<close>

theorem port_state_update_repeatable:
  assumes "conf_file (conf self) = None"
  shows
    "(let line = dpid_log self (dp_id (dp self)) @ '' '' @ port_state_log_msg ofp msg;
          (r1, w1) = GaugePortStateLogger_update ofp self t msg w;
          (r2, w2) = GaugePortStateLogger_update ofp self t msg w1
      in r1 = Inr () \<and> r2 = Inr () \<and>
         logged w1 = logged w @ [(INFO, line)] \<and>
         logged w2 = logged w1 @ [(INFO, line)] \<and>
         files w2 = files w)"
  using assms
  by (simp add: GaugePortStateLogger_update_def Let_def logger_info_def)

theorem port_state_update_repeatable_witness:
  "(let (r1, w1) = GaugePortStateLogger_update ofproto_v1_3 (demo_watcher (demo_conf None False)) 5
                     demo_port_added demo_world;
        (r2, w2) = GaugePortStateLogger_update ofproto_v1_3 (demo_watcher (demo_conf None False)) 5
                     demo_port_added w1
    in r1 = Inr () \<and> r2 = Inr () \<and>
       logged w1 = [(INFO, ''DPID 1 port 3 added'')] \<and>
       logged w2 = [(INFO, ''DPID 1 port 3 added''), (INFO, ''DPID 1 port 3 added'')])"
proof -
  have h: "conf_file (conf (demo_watcher (demo_conf None False))) = None"
    by simp
  show ?thesis
    using port_state_update_repeatable [OF h, of ofproto_v1_3 demo_port_added 5 demo_world]
    by (simp add: Let_def demo_dpid_log demo_port_added_msg case_prod_unfold)
qed

end
